theory Spec2Isabelle
  imports Main
begin

section \<open>JavaScript values and the built-ins the host code calls\<close>

text \<open>
  The host side of the repository is JavaScript: \<^verbatim>\<open>evaluate.js\<close> (the one-shot
  \<^verbatim>\<open>evaluate\<close> function) and \<^verbatim>\<open>evaluator.js\<close> (the reusable \<^verbatim>\<open>Evaluator\<close>
  class). Both marshal a JSON request into the linear memory of a WebAssembly
  instance, call its exports \<^verbatim>\<open>alloc\<close>, \<^verbatim>\<open>run\<close> and \<^verbatim>\<open>free\<close>, and read the
  answer that the instance hands to the imported function \<^verbatim>\<open>evaluator.output\<close>.

  A JavaScript value is a tree. Numbers are the integer-valued ones of magnitude
  below \<^verbatim>\<open>1e21\<close> (their decimal numeral is what \<^verbatim>\<open>String\<close> and
  \<^verbatim>\<open>JSON.stringify\<close> print); a string is held as
  its UTF-8 byte sequence, so \<^verbatim>\<open>TextEncoder.encode\<close> changes nothing and the
  length of the encoded bytes is the length of the list. An object is the list
  of its own properties in enumeration order.
\<close>

datatype js =
    JUndefined
  | JNull
  | JBool bool
  | JNum int
  | JStr string
  | JArr "js list"
  | JObj "(string \<times> js) list"

text \<open>What a \<^verbatim>\<open>throw\<close> carries. \<open>Error msg\<close> is \<^verbatim>\<open>new Error(msg)\<close>, the only error
  the repository constructs itself; the others are raised by the platform:
  \<open>SyntaxError\<close> by \<^verbatim>\<open>JSON.parse\<close>, \<open>TypeError\<close> by a property read on
  \<^verbatim>\<open>null\<close> or \<^verbatim>\<open>undefined\<close>, \<open>RangeError\<close> by a typed-array view outside its
  buffer, \<open>RuntimeError\<close> by a WebAssembly trap, \<open>CompileError\<close> and \<open>LinkError\<close>
  by compilation and instantiation.\<close>

datatype js_error =
    Error string
  | SyntaxError
  | TypeError
  | RangeError
  | RuntimeError
  | CompileError
  | LinkError

type_synonym byte = char

subsection \<open>Numerals\<close>

definition digit :: "nat \<Rightarrow> char" where
  "digit d = ''0123456789'' ! (d mod 10)"

fun show_nat :: "nat \<Rightarrow> string" where
  "show_nat n = (if n < 10 then [digit n] else show_nat (n div 10) @ [digit n])"

declare show_nat.simps [simp del]

definition show_int :: "int \<Rightarrow> string" where
  "show_int i = (if i < 0 then CHR ''-'' # show_nat (nat (- i)) else show_nat (nat i))"

subsection \<open>Truthiness, \<^verbatim>\<open>String(v)\<close>, property reads\<close>

fun truthy :: "js \<Rightarrow> bool" where
  "truthy JUndefined = False"
| "truthy JNull = False"
| "truthy (JBool b) = b"
| "truthy (JNum n) = (n \<noteq> 0)"
| "truthy (JStr s) = (s \<noteq> [])"
| "truthy (JArr xs) = True"
| "truthy (JObj kvs) = True"

fun join :: "string \<Rightarrow> string list \<Rightarrow> string" where
  "join sep [] = []"
| "join sep [s] = s"
| "join sep (s # t # ss) = s @ sep @ join sep (t # ss)"

text \<open>\<^verbatim>\<open>String(v)\<close>, which \<^verbatim>\<open>new Error(v)\<close> applies to its argument. An array joins
  its elements with commas (\<^verbatim>\<open>null\<close> and \<^verbatim>\<open>undefined\<close> elements print empty); a
  plain object prints \<^verbatim>\<open>[object Object]\<close>, unless an own property shadows
  \<^verbatim>\<open>toString\<close> with a value that cannot be called, which is a \<open>TypeError\<close>.\<close>

fun to_string :: "js \<Rightarrow> js_error + string"
  and to_string_elems :: "js list \<Rightarrow> js_error + string list" where
  "to_string JUndefined = Inr ''undefined''"
| "to_string JNull = Inr ''null''"
| "to_string (JBool b) = Inr (if b then ''true'' else ''false'')"
| "to_string (JNum n) = Inr (show_int n)"
| "to_string (JStr s) = Inr s"
| "to_string (JArr xs) =
     (case to_string_elems xs of Inl e \<Rightarrow> Inl e | Inr ss \<Rightarrow> Inr (join '','' ss))"
| "to_string (JObj kvs) =
     (if ''toString'' \<in> fst ` set kvs then Inl TypeError else Inr ''[object Object]'')"
| "to_string_elems [] = Inr []"
| "to_string_elems (x # xs) =
     (case (if x = JUndefined \<or> x = JNull then Inr [] else to_string x) of
        Inl e \<Rightarrow> Inl e
      | Inr s \<Rightarrow> (case to_string_elems xs of Inl e \<Rightarrow> Inl e | Inr ss \<Rightarrow> Inr (s # ss)))"

text \<open>\<^verbatim>\<open>v.k\<close> for a key \<open>k\<close> that no prototype defines (the code reads only
  \<^verbatim>\<open>error\<close> and \<^verbatim>\<open>data\<close>): the own property, or \<^verbatim>\<open>undefined\<close>; on \<^verbatim>\<open>null\<close> and
  \<^verbatim>\<open>undefined\<close> the read throws.\<close>

fun get_prop :: "js \<Rightarrow> string \<Rightarrow> js_error + js" where
  "get_prop JUndefined k = Inl TypeError"
| "get_prop JNull k = Inl TypeError"
| "get_prop (JObj kvs) k = (case map_of kvs k of None \<Rightarrow> Inr JUndefined | Some v \<Rightarrow> Inr v)"
| "get_prop v k = Inr JUndefined"

subsection \<open>\<^verbatim>\<open>JSON.stringify\<close>\<close>

definition hex_digit :: "nat \<Rightarrow> char" where
  "hex_digit d = ''0123456789abcdef'' ! (d mod 16)"

definition quote_char :: "char \<Rightarrow> string" where
  "quote_char c =
     (if c = CHR 0x22 then [CHR 0x5C, CHR 0x22]
      else if c = CHR 0x5C then [CHR 0x5C, CHR 0x5C]
      else if c = CHR 0x08 then [CHR 0x5C, CHR ''b'']
      else if c = CHR 0x0C then [CHR 0x5C, CHR ''f'']
      else if c = CHR 0x0A then [CHR 0x5C, CHR ''n'']
      else if c = CHR 0x0D then [CHR 0x5C, CHR ''r'']
      else if c = CHR 0x09 then [CHR 0x5C, CHR ''t'']
      else if (of_char c :: nat) < 32
        then [CHR 0x5C, CHR ''u'', CHR ''0'', CHR ''0'',
              hex_digit (of_char c div 16), hex_digit (of_char c)]
      else [c])"

definition quote :: "string \<Rightarrow> string" where
  "quote s = CHR 0x22 # concat (map quote_char s) @ [CHR 0x22]"

text \<open>\<open>None\<close> is the result \<^verbatim>\<open>undefined\<close>: \<^verbatim>\<open>JSON.stringify(undefined)\<close> is not a
  text. A property whose value is \<^verbatim>\<open>undefined\<close> is left out of an object; an
  \<^verbatim>\<open>undefined\<close> array element is written \<^verbatim>\<open>null\<close>.\<close>

fun JSON_stringify :: "js \<Rightarrow> string option"
  and stringify_elems :: "js list \<Rightarrow> string list"
  and stringify_props :: "(string \<times> js) list \<Rightarrow> string list" where
  "JSON_stringify JUndefined = None"
| "JSON_stringify JNull = Some ''null''"
| "JSON_stringify (JBool b) = Some (if b then ''true'' else ''false'')"
| "JSON_stringify (JNum n) = Some (show_int n)"
| "JSON_stringify (JStr s) = Some (quote s)"
| "JSON_stringify (JArr xs) = Some (''['' @ join '','' (stringify_elems xs) @ '']'')"
| "JSON_stringify (JObj kvs) = Some (''{'' @ join '','' (stringify_props kvs) @ ''}'')"
| "stringify_elems [] = []"
| "stringify_elems (x # xs) =
     (case JSON_stringify x of None \<Rightarrow> ''null'' | Some t \<Rightarrow> t) # stringify_elems xs"
| "stringify_props [] = []"
| "stringify_props (kv # kvs) =
     (case JSON_stringify (snd kv) of
        None \<Rightarrow> stringify_props kvs
      | Some t \<Rightarrow> (quote (fst kv) @ '':'' @ t) # stringify_props kvs)"

text \<open>\<^verbatim>\<open>new TextEncoder().encode(s)\<close>; its parameter defaults to the empty string
  when the argument is \<^verbatim>\<open>undefined\<close>.\<close>

definition TextEncoder_encode :: "string option \<Rightarrow> byte list" where
  "TextEncoder_encode s = (case s of None \<Rightarrow> [] | Some t \<Rightarrow> t)"

subsection \<open>Typed-array views\<close>

text \<open>\<^verbatim>\<open>new Uint8Array(buffer, byteOffset, length)\<close> throws a \<open>RangeError\<close> when the
  view does not lie inside the buffer; otherwise it denotes the bytes
  \<open>byteOffset ..< byteOffset + length\<close>.\<close>

definition Uint8Array :: "byte list \<Rightarrow> int \<Rightarrow> int \<Rightarrow> js_error + byte list" where
  "Uint8Array buffer byteOffset len =
     (if byteOffset < 0 \<or> len < 0 \<or> int (length buffer) < byteOffset + len
      then Inl RangeError
      else Inr (take (nat len) (drop (nat byteOffset) buffer)))"

text \<open>\<^verbatim>\<open>view.set(bytes)\<close> on a view at \<open>byteOffset\<close> as long as \<open>bytes\<close>: the buffer
  with those bytes replaced.\<close>

definition set_bytes :: "byte list \<Rightarrow> int \<Rightarrow> byte list \<Rightarrow> byte list" where
  "set_bytes buffer byteOffset bytes =
     take (nat byteOffset) buffer @ bytes @ drop (nat byteOffset + length bytes) buffer"

section \<open>The request envelope\<close>

text \<open>What the code reads off \<^verbatim>\<open>new Date()\<close>: the text of \<^verbatim>\<open>toISOString()\<close> and the
  local calendar fields (\<^verbatim>\<open>getMonth()\<close> counts from 0).\<close>

record Date =
  toISOString :: string
  getFullYear :: int
  getMonth :: nat
  getDate :: nat

definition months :: "string list" where
  "months = [''01'', ''02'', ''03'', ''04'', ''05'', ''06'',
             ''07'', ''08'', ''09'', ''10'', ''11'', ''12'']"

definition days :: "string list" where
  "days = [''00'', ''01'', ''02'', ''03'', ''04'', ''05'', ''06'', ''07'',
           ''08'', ''09'', ''10'', ''11'', ''12'', ''13'', ''14'', ''15'',
           ''16'', ''17'', ''18'', ''19'', ''20'', ''21'', ''22'', ''23'',
           ''24'', ''25'', ''26'', ''27'', ''28'', ''29'', ''30'', ''31'']"

text \<open>\<^verbatim>\<open>xs[i]\<close> inside a template literal: an index past the end reads
  \<^verbatim>\<open>undefined\<close>, which prints as that word.\<close>

definition index_text :: "string list \<Rightarrow> nat \<Rightarrow> string" where
  "index_text xs i = (if i < length xs then xs ! i else ''undefined'')"

definition nowToDate :: "Date \<Rightarrow> string" where
  "nowToDate now =
     show_int (getFullYear now) @ ''-'' @ index_text months (getMonth now) @ ''-'' @
     index_text days (getDate now)"

text \<open>The object literal \<^verbatim>\<open>inputJson\<close>, written the same in both files.\<close>

definition inputJson :: "Date \<Rightarrow> js \<Rightarrow> js \<Rightarrow> js \<Rightarrow> js" where
  "inputJson now expression val previousValue =
     JObj [(''expression'', expression),
           (''value'', if val \<noteq> JUndefined then val else JNull),
           (''previousValue'', previousValue),
           (''now'', JStr (toISOString now)),
           (''date'', JStr (nowToDate now))]"

section \<open>The sandbox\<close>

text \<open>
  A WebAssembly instance is its exported linear memory together with whatever
  else it keeps (allocator bookkeeping and the like, of a type \<open>'g\<close> the host
  never looks into). The compiled artifact is not part of the JavaScript
  sources, so its behaviour is a parameter: what instantiation yields and what
  each export does to the instance.

  \<^item> \<^verbatim>\<open>alloc(len)\<close> returns a pointer, or traps (\<open>None\<close>);
  \<^item> \<^verbatim>\<open>free(ptr, len)\<close> returns (\<open>True\<close>) or traps (\<open>False\<close>);
  \<^item> \<^verbatim>\<open>run(ptr, len)\<close> calls the import \<^verbatim>\<open>evaluator.output\<close> some number of
    times, each call with a pointer, a length and the instance as it is at that
    moment, and then returns or traps. If the import throws, the exception
    unwinds through \<^verbatim>\<open>run\<close> and the later calls never happen.

  Instantiation, \<^verbatim>\<open>alloc\<close> and \<^verbatim>\<open>free\<close> do not call the import. Pointers and
  lengths cross the boundary as JavaScript numbers, hence \<open>int\<close>.
\<close>

record 'g Instance =
  memory :: "byte list"
  globals :: 'g

record 'g run_result =
  output_calls :: "(int \<times> int \<times> 'g Instance) list"
  trapped :: bool
  final :: "'g Instance"

record 'g wasm =
  instantiate :: "js_error + 'g Instance"
  alloc :: "int \<Rightarrow> 'g Instance \<Rightarrow> int option \<times> 'g Instance"
  run :: "int \<Rightarrow> int \<Rightarrow> 'g Instance \<Rightarrow> 'g run_result"
  free :: "int \<Rightarrow> int \<Rightarrow> 'g Instance \<Rightarrow> bool \<times> 'g Instance"

text \<open>The platform functions whose result the host code only passes on:
  \<^verbatim>\<open>WebAssembly.compile\<close>, \<^verbatim>\<open>TextDecoder.decode\<close> and the JSON grammar behind
  \<^verbatim>\<open>JSON.parse\<close> (\<open>None\<close> for a text that is not JSON).\<close>

record 'g platform =
  WebAssembly_compile :: "byte list \<Rightarrow> js_error + 'g wasm"
  TextDecoder_decode :: "byte list \<Rightarrow> string"
  JSON_text :: "string \<Rightarrow> js option"

text \<open>\<^verbatim>\<open>JSON.parse(v)\<close> first turns \<open>v\<close> into a string. The slot it is applied to
  holds \<^verbatim>\<open>undefined\<close>, \<^verbatim>\<open>null\<close> or a string: the word \<^verbatim>\<open>undefined\<close> is not
  JSON, the word \<^verbatim>\<open>null\<close> is.\<close>

definition JSON_parse :: "'g platform \<Rightarrow> js \<Rightarrow> js_error + js" where
  "JSON_parse P v =
     (case v of
        JUndefined \<Rightarrow> Inl SyntaxError
      | JNull \<Rightarrow> Inr JNull
      | JStr s \<Rightarrow> (case JSON_text P s of None \<Rightarrow> Inl SyntaxError | Some j \<Rightarrow> Inr j)
      | _ \<Rightarrow> (case to_string v of
                Inl e \<Rightarrow> Inl e
              | Inr s \<Rightarrow> (case JSON_text P s of None \<Rightarrow> Inl SyntaxError | Some j \<Rightarrow> Inr j)))"

text \<open>What the host does to the file system, the platform and the sandbox, in the
  order it happens.\<close>

datatype event =
    ReadFile string
  | Compile
  | Instantiate
  | CallAlloc int
  | CallRun int int
  | CallOutput int int
  | CallFree int int

section \<open>Module load: the top of both files\<close>

text \<open>A promise is known by its identity (here the position of its \<open>Compile\<close>
  event in the log) and by what it settles to.\<close>

record 'g promise =
  ident :: nat
  settled :: "js_error + 'g wasm"

text \<open>The two module-level variables \<^verbatim>\<open>file\<close> (here \<open>file'\<close>) and
  \<^verbatim>\<open>modulePromise\<close>. Each of the two files declares its own pair.\<close>

record 'g js_module =
  file' :: "byte list"
  modulePromise :: "'g promise option"

text \<open>Lines 14--25, run when the file is \<^verbatim>\<open>require\<close>d: read the artifact, or throw.
  The file system is a map from paths to contents.\<close>

definition require_module ::
  "(string \<Rightarrow> byte list option) \<Rightarrow> event list \<Rightarrow> (js_error + 'g js_module) \<times> event list" where
  "require_module fs log =
     (case fs ''evaluator.wasm'' of
        None \<Rightarrow>
          (Inl (Error ''Could not find evaluator.wasm; you probably need to build it first. See the README.md or the Makefile.''),
           log @ [ReadFile ''evaluator.wasm''])
      | Some bytes \<Rightarrow>
          (Inr \<lparr>file' = bytes, modulePromise = None\<rparr>, log @ [ReadFile ''evaluator.wasm'']))"

definition loadModule ::
  "'g platform \<Rightarrow> 'g js_module \<Rightarrow> event list \<Rightarrow> 'g promise \<times> 'g js_module \<times> event list" where
  "loadModule P m log =
     (case modulePromise m of
        Some p \<Rightarrow> (p, m, log)
      | None \<Rightarrow>
          (let p = \<lparr>ident = length log, settled = WebAssembly_compile P (file' m)\<rparr>
           in (p, m\<lparr>modulePromise := Some p\<rparr>, log @ [Compile])))"

section \<open>The import \<^verbatim>\<open>evaluator.output\<close> and a call of \<^verbatim>\<open>run\<close>\<close>

text \<open>The closure bound as \<^verbatim>\<open>evaluator.output\<close>: a view on the memory as it is
  now, decoded, is the new content of the output slot.\<close>

definition evaluator_output :: "'g platform \<Rightarrow> byte list \<Rightarrow> int \<Rightarrow> int \<Rightarrow> js_error + js" where
  "evaluator_output P buffer outputPtr outputLen =
     (case Uint8Array buffer outputPtr outputLen of
        Inl e \<Rightarrow> Inl e
      | Inr outputMem \<Rightarrow> Inr (JStr (TextDecoder_decode P outputMem)))"

text \<open>The calls of the import that one \<^verbatim>\<open>run\<close> makes, in order, on the slot. The
  first component is the exception of the import and the instance it left
  behind, if it threw.\<close>

fun deliver ::
  "'g platform \<Rightarrow> (int \<times> int \<times> 'g Instance) list \<Rightarrow> js \<Rightarrow> event list \<Rightarrow>
     (js_error \<times> 'g Instance) option \<times> js \<times> event list" where
  "deliver P [] slot log = (None, slot, log)"
| "deliver P ((outputPtr, outputLen, st) # calls) slot log =
     (case evaluator_output P (memory st) outputPtr outputLen of
        Inl e \<Rightarrow> (Some (e, st), slot, log @ [CallOutput outputPtr outputLen])
      | Inr s \<Rightarrow> deliver P calls s (log @ [CallOutput outputPtr outputLen]))"

text \<open>\<^verbatim>\<open>run(inputPtr, inputLen)\<close> as the host sees it: what was thrown (if anything),
  the slot, the instance and the log afterwards.\<close>

definition call_run ::
  "'g platform \<Rightarrow> 'g wasm \<Rightarrow> int \<Rightarrow> int \<Rightarrow> 'g Instance \<Rightarrow> js \<Rightarrow> event list \<Rightarrow>
     js_error option \<times> js \<times> 'g Instance \<times> event list" where
  "call_run P w inputPtr inputLen st slot log =
     (let r = run w inputPtr inputLen st in
      case deliver P (output_calls r) slot (log @ [CallRun inputPtr inputLen]) of
        (Some (e, st'), slot', log') \<Rightarrow> (Some e, slot', st', log')
      | (None, slot', log') \<Rightarrow>
          (if trapped r then Some RuntimeError else None, slot', final r, log'))"

section \<open>\<^verbatim>\<open>evaluate.js\<close>: the one-shot \<^verbatim>\<open>evaluate\<close>\<close>

text \<open>
  The function body in source order. The result is what the returned promise
  settles to: \<open>Inr v\<close> fulfilled with \<open>v\<close>, \<open>Inl e\<close> rejected with \<open>e\<close>. The
  local \<^verbatim>\<open>outputStr\<close> starts out \<^verbatim>\<open>undefined\<close>; \<^verbatim>\<open>memory\<close> is the memory of the
  instance just made. There is no \<^verbatim>\<open>try\<close> in the function: whatever a step
  throws ends the call there.
\<close>

definition evaluate ::
  "'g platform \<Rightarrow> Date \<Rightarrow> js \<Rightarrow> js \<Rightarrow> js \<Rightarrow> 'g js_module \<Rightarrow> event list \<Rightarrow>
     (js_error + js) \<times> 'g js_module \<times> event list" where
  "evaluate P now expression val previousValue m log =
     (case loadModule P m log of (promise, m1, log1) \<Rightarrow>
     (case settled promise of
        Inl e \<Rightarrow> (Inl e, m1, log1)
      | Inr wasm_module \<Rightarrow>
     (let outputStr = JUndefined in
     (case instantiate wasm_module of
        Inl e \<Rightarrow> (Inl e, m1, log1 @ [Instantiate])
      | Inr inst \<Rightarrow>
     (let log2 = log1 @ [Instantiate];
          inputStr = JSON_stringify (inputJson now expression val previousValue);
          bytes = TextEncoder_encode inputStr;
          inputLen = int (length bytes) in
     (case alloc wasm_module inputLen inst of
        (None, st1) \<Rightarrow> (Inl RuntimeError, m1, log2 @ [CallAlloc inputLen])
      | (Some inputPtr, st1) \<Rightarrow>
     (let log3 = log2 @ [CallAlloc inputLen] in
     (case Uint8Array (memory st1) inputPtr inputLen of
        Inl e \<Rightarrow> (Inl e, m1, log3)
      | Inr inputMem \<Rightarrow>
     (let st1' = st1\<lparr>memory := set_bytes (memory st1) inputPtr bytes\<rparr> in
     (case call_run P wasm_module inputPtr inputLen st1' outputStr log3 of
        (Some e, outputStr, st2, log4) \<Rightarrow> (Inl e, m1, log4)
      | (None, outputStr, st2, log4) \<Rightarrow>
     (let log5 = log4 @ [CallFree inputPtr inputLen] in
     (case free wasm_module inputPtr inputLen st2 of
        (False, st3) \<Rightarrow> (Inl RuntimeError, m1, log5)
      | (True, st3) \<Rightarrow>
     (case JSON_parse P outputStr of
        Inl e \<Rightarrow> (Inl e, m1, log5)
      | Inr out \<Rightarrow>
     (case get_prop out ''error'' of
        Inl e \<Rightarrow> (Inl e, m1, log5)
      | Inr err \<Rightarrow>
     (if truthy err
      then (case to_string err of
              Inl e \<Rightarrow> (Inl e, m1, log5)
            | Inr msg \<Rightarrow> (Inl (Error msg), m1, log5))
      else (get_prop out ''data'', m1, log5))))))))))))))))"

section \<open>\<^verbatim>\<open>evaluator.js\<close>: the \<^verbatim>\<open>Evaluator\<close> class\<close>

text \<open>
  The fields \<^verbatim>\<open>_instance\<close> and \<^verbatim>\<open>_outputStr\<close> (an Isabelle name cannot start with
  an underscore). \<^verbatim>\<open>_instance\<close> is \<^verbatim>\<open>null\<close> until \<^verbatim>\<open>create\<close> sets it; when set it
  is the exports together with the live instance, whose memory is the field
  \<^verbatim>\<open>_memory\<close>.
\<close>

record 'g Evaluator =
  this_instance :: "('g wasm \<times> 'g Instance) option"
  this_outputStr :: js

definition Evaluator_create ::
  "'g platform \<Rightarrow> 'g js_module \<Rightarrow> event list \<Rightarrow>
     (js_error + 'g Evaluator) \<times> 'g js_module \<times> event list" where
  "Evaluator_create P m log =
     (let self = \<lparr>this_instance = None, this_outputStr = JNull\<rparr> in
     (case loadModule P m log of (promise, m1, log1) \<Rightarrow>
     (case settled promise of
        Inl e \<Rightarrow> (Inl e, m1, log1)
      | Inr wasm_module \<Rightarrow>
     (case instantiate wasm_module of
        Inl e \<Rightarrow> (Inl e, m1, log1 @ [Instantiate])
      | Inr inst \<Rightarrow>
          (Inr (self\<lparr>this_instance := Some (wasm_module, inst)\<rparr>), m1,
           log1 @ [Instantiate])))))"

text \<open>The method \<^verbatim>\<open>evaluate\<close>, in source order. It is synchronous: \<open>Inr v\<close> is the
  value returned, \<open>Inl e\<close> the exception thrown. The object is returned as the
  call leaves it, with the instance as the last export call left it.\<close>

definition Evaluator_evaluate ::
  "'g platform \<Rightarrow> Date \<Rightarrow> js \<Rightarrow> js \<Rightarrow> js \<Rightarrow> 'g Evaluator \<Rightarrow> event list \<Rightarrow>
     (js_error + js) \<times> 'g Evaluator \<times> event list" where
  "Evaluator_evaluate P now expression val previousValue self log =
     (case this_instance self of
        None \<Rightarrow> (Inl TypeError, self, log)
      | Some (exports, inst) \<Rightarrow>
     (let inputStr = JSON_stringify (inputJson now expression val previousValue);
          bytes = TextEncoder_encode inputStr;
          inputLen = int (length bytes) in
     (case alloc exports inputLen inst of
        (None, st1) \<Rightarrow>
          (Inl RuntimeError, self\<lparr>this_instance := Some (exports, st1)\<rparr>,
           log @ [CallAlloc inputLen])
      | (Some inputPtr, st1) \<Rightarrow>
     (let log3 = log @ [CallAlloc inputLen] in
     (case Uint8Array (memory st1) inputPtr inputLen of
        Inl e \<Rightarrow> (Inl e, self\<lparr>this_instance := Some (exports, st1)\<rparr>, log3)
      | Inr inputMem \<Rightarrow>
     (let st1' = st1\<lparr>memory := set_bytes (memory st1) inputPtr bytes\<rparr> in
     (case call_run P exports inputPtr inputLen st1' (this_outputStr self) log3 of
        (Some e, outputStr, st2, log4) \<Rightarrow>
          (Inl e, \<lparr>this_instance = Some (exports, st2), this_outputStr = outputStr\<rparr>, log4)
      | (None, outputStr, st2, log4) \<Rightarrow>
     (let log5 = log4 @ [CallFree inputPtr inputLen] in
     (case free exports inputPtr inputLen st2 of
        (False, st3) \<Rightarrow>
          (Inl RuntimeError,
           \<lparr>this_instance = Some (exports, st3), this_outputStr = outputStr\<rparr>, log5)
      | (True, st3) \<Rightarrow>
     (case JSON_parse P outputStr of
        Inl e \<Rightarrow>
          (Inl e, \<lparr>this_instance = Some (exports, st3), this_outputStr = outputStr\<rparr>, log5)
      | Inr out \<Rightarrow>
     (let self' = \<lparr>this_instance = Some (exports, st3), this_outputStr = JNull\<rparr> in
     (case get_prop out ''error'' of
        Inl e \<Rightarrow> (Inl e, self', log5)
      | Inr err \<Rightarrow>
     (if truthy err
      then (case to_string err of
              Inl e \<Rightarrow> (Inl e, self', log5)
            | Inr msg \<Rightarrow> (Inl (Error msg), self', log5))
      else (get_prop out ''data'', self', log5))))))))))))))"

section \<open>Vocabulary for the properties\<close>

text \<open>A call yields its result, the state it leaves and the log.\<close>

abbreviation result_of :: "'a \<times> 'b \<times> 'c \<Rightarrow> 'a" where
  "result_of r \<equiv> fst r"

abbreviation state_of :: "'a \<times> 'b \<times> 'c \<Rightarrow> 'b" where
  "state_of r \<equiv> fst (snd r)"









subsection \<open>The per-call protocol\<close>



subsection \<open>Programs that use the two files\<close>

text \<open>\<^verbatim>\<open>loadModule()\<close> called \<open>k\<close> times in a row: the promises returned, in order.\<close>

fun loadModule_times ::
  "'g platform \<Rightarrow> nat \<Rightarrow> 'g js_module \<Rightarrow> event list \<Rightarrow>
     'g promise list \<times> 'g js_module \<times> event list" where
  "loadModule_times P 0 m log = ([], m, log)"
| "loadModule_times P (Suc k) m log =
     (case loadModule P m log of (p, m1, log1) \<Rightarrow>
     (case loadModule_times P k m1 log1 of (ps, m2, log2) \<Rightarrow> (p # ps, m2, log2)))"

text \<open>What \<^verbatim>\<open>index.js\<close> does with each file: \<^verbatim>\<open>require\<close> it, then call what it
  exports. A \<^verbatim>\<open>require\<close> that throws ends the program.\<close>

definition require_then_evaluate ::
  "'g platform \<Rightarrow> (string \<Rightarrow> byte list option) \<Rightarrow> Date \<Rightarrow> js \<Rightarrow> js \<Rightarrow> js \<Rightarrow> event list \<Rightarrow>
     (js_error + js) \<times> event list" where
  "require_then_evaluate P fs now expression val previousValue log =
     (case require_module fs log of
        (Inl e, log1) \<Rightarrow> (Inl e, log1)
      | (Inr m, log1) \<Rightarrow>
          (case evaluate P now expression val previousValue m log1 of
             (r, m1, log2) \<Rightarrow> (r, log2)))"

definition require_then_create ::
  "'g platform \<Rightarrow> (string \<Rightarrow> byte list option) \<Rightarrow> event list \<Rightarrow>
     (js_error + 'g Evaluator) \<times> event list" where
  "require_then_create P fs log =
     (case require_module fs log of
        (Inl e, log1) \<Rightarrow> (Inl e, log1)
      | (Inr m, log1) \<Rightarrow>
          (case Evaluator_create P m log1 of (r, m1, log2) \<Rightarrow> (r, log2)))"

text \<open>\<^verbatim>\<open>index.js\<close> requires both files, and then uses both: the first thing that
  \<^verbatim>\<open>evaluate\<close> and \<^verbatim>\<open>Evaluator.create\<close> do is to call the \<^verbatim>\<open>loadModule\<close> of their
  own file. The result is the identities of the two promises and the log.\<close>

definition load_in_both_files ::
  "'g platform \<Rightarrow> (string \<Rightarrow> byte list option) \<Rightarrow> (nat \<times> nat \<times> event list) option" where
  "load_in_both_files P fs =
     (case require_module fs [] of
        (Inl e, log1) \<Rightarrow> None
      | (Inr m_evaluate, log1) \<Rightarrow>
     (case require_module fs log1 of
        (Inl e, log2) \<Rightarrow> None
      | (Inr m_evaluator, log2) \<Rightarrow>
     (case loadModule P m_evaluate log2 of (p1, m1, log3) \<Rightarrow>
     (case loadModule P m_evaluator log3 of (p2, m2, log4) \<Rightarrow>
        Some (ident p1, ident p2, log4)))))"

subsection \<open>Sample sandboxes\<close>

text \<open>
  A sandbox that follows a script: \<^verbatim>\<open>alloc\<close> always returns \<open>ptr\<close> (growing the
  memory to hold the request there), \<^verbatim>\<open>free\<close> returns, and each \<^verbatim>\<open>run\<close>
  consumes one step of the script: an optional reply, which it writes at
  address 0 and hands to \<^verbatim>\<open>evaluator.output\<close>, and whether it traps afterwards.
  With the script used up, \<^verbatim>\<open>run\<close> returns silently.
\<close>

type_synonym script = "(string option \<times> bool) list"

definition sandbox_run :: "int \<Rightarrow> int \<Rightarrow> script Instance \<Rightarrow> script run_result" where
  "sandbox_run inputPtr inputLen st =
     (case globals st of
        [] \<Rightarrow> \<lparr>output_calls = [], trapped = False, final = st\<rparr>
      | (None, traps) # rest \<Rightarrow>
          \<lparr>output_calls = [], trapped = traps, final = st\<lparr>globals := rest\<rparr>\<rparr>
      | (Some reply, traps) # rest \<Rightarrow>
          (let st' = st\<lparr>memory := set_bytes (memory st) 0 reply, globals := rest\<rparr>
           in \<lparr>output_calls = [(0, int (length reply), st')], trapped = traps, final = st'\<rparr>))"

definition sandbox :: "int \<Rightarrow> script \<Rightarrow> script wasm" where
  "sandbox ptr steps =
     \<lparr>instantiate = Inr \<lparr>memory = [], globals = steps\<rparr>,
      alloc = (\<lambda>len st. (Some ptr, st\<lparr>memory := replicate (nat (ptr + len)) (CHR 0x00)\<rparr>)),
      run = sandbox_run,
      free = (\<lambda>inputPtr inputLen st. (True, st))\<rparr>"

text \<open>\<^verbatim>\<open>JSON.parse\<close> on the replies of the samples: three JSON texts, and
  \<^verbatim>\<open>oops\<close>, which is not JSON. No other text is looked up.\<close>

definition sample_JSON :: "string \<Rightarrow> js option" where
  \<open>sample_JSON s =
     (if s = ''{"data":true}'' then Some (JObj [(''data'', JBool True)])
      else if s = ''{"error":"bad token"}'' then Some (JObj [(''error'', JStr ''bad token'')])
      else if s = ''{"error":"","data":1}''
        then Some (JObj [(''error'', JStr []), (''data'', JNum 1)])
      else None)\<close>

definition host :: "'g wasm \<Rightarrow> 'g platform" where
  "host w =
     \<lparr>WebAssembly_compile = (\<lambda>bytes. Inr w),
      TextDecoder_decode = (\<lambda>bytes. bytes),
      JSON_text = sample_JSON\<rparr>"

definition noon :: Date where
  "noon = \<lparr>toISOString = ''2026-11-02T12:00:00.000Z'', getFullYear = 2026,
           getMonth = 10, getDate = 2\<rparr>"

text \<open>A file system with the artifact, one without, and the state of either
  file's variables right after a successful \<^verbatim>\<open>require\<close>.\<close>

definition built :: "string \<Rightarrow> byte list option" where
  "built path = (if path = ''evaluator.wasm'' then Some [] else None)"

definition unbuilt :: "string \<Rightarrow> byte list option" where
  "unbuilt path = None"

definition required :: "'g js_module" where
  "required = \<lparr>file' = [], modulePromise = None\<rparr>"

text \<open>The handle that \<^verbatim>\<open>Evaluator.create\<close> returns for a sample sandbox.\<close>

definition fresh :: "int \<Rightarrow> script \<Rightarrow> script Evaluator" where
  "fresh ptr steps =
     \<lparr>this_instance = Some (sandbox ptr steps, \<lparr>memory = [], globals = steps\<rparr>),
      this_outputStr = JNull\<rparr>"

section \<open>The request envelope on the wire\<close>




section \<open>Both bodies follow the per-call protocol\<close>




















section \<open>Buffer discipline\<close>









section \<open>A run that produces no output\<close>







section \<open>Reading the response envelope\<close>







section \<open>A null pointer from the allocator\<close>





section \<open>The handle against the one-shot function\<close>




section \<open>Module load and the independence of one-shot calls\<close>






section \<open>The module cache\<close>

lemma loadModule_times_cached:
  "modulePromise m = Some p \<Longrightarrow> loadModule_times P k m log = (replicate k p, m, log)"
  by (induction k) (simp_all add: loadModule_def)

lemma loadModule_times_first:
  assumes "modulePromise m = None" and "0 < k"
  shows "loadModule_times P k m log =
           (replicate k \<lparr>ident = length log, settled = WebAssembly_compile P (file' m)\<rparr>,
            m\<lparr>modulePromise :=
                Some \<lparr>ident = length log, settled = WebAssembly_compile P (file' m)\<rparr>\<rparr>,
            log @ [Compile])"
proof -
  let ?p = "\<lparr>ident = length log, settled = WebAssembly_compile P (file' m)\<rparr>"
  from assms(2) obtain j where k: "k = Suc j" by (cases k) auto
  have L: "loadModule P m log = (?p, m\<lparr>modulePromise := Some ?p\<rparr>, log @ [Compile])"
    using assms(1) by (simp add: loadModule_def Let_def)
  have "loadModule_times P j (m\<lparr>modulePromise := Some ?p\<rparr>) (log @ [Compile]) =
          (replicate j ?p, m\<lparr>modulePromise := Some ?p\<rparr>, log @ [Compile])"
    by (rule loadModule_times_cached) simp
  with L show ?thesis by (simp add: k)
qed

text \<open>
  Claim C7, as the code has it. Each of the two files keeps a cache of its own.
  Once a file has been required (which reads the artifact, once), any number
  \<open>k \<ge> 1\<close> of calls of that file's \<^verbatim>\<open>loadModule\<close> compile once, and all \<open>k\<close>
  callers get one and the same promise, whether it has settled or not.
\<close>

theorem loadModule_compiles_once:
  assumes "require_module fs log0 = (Inr m, log)" and "0 < k"
  shows "\<exists>p. loadModule_times P k m log =
           (replicate k p, m\<lparr>modulePromise := Some p\<rparr>,
            log0 @ [ReadFile ''evaluator.wasm'', Compile]) \<and>
         fs ''evaluator.wasm'' = Some (file' m) \<and>
         settled p = WebAssembly_compile P (file' m)"
proof -
  from assms(1) have m: "modulePromise m = None" "fs ''evaluator.wasm'' = Some (file' m)"
    and log: "log = log0 @ [ReadFile ''evaluator.wasm'']"
    by (auto simp: require_module_def split: option.splits)
  from loadModule_times_first [OF m(1) assms(2), of P log] m(2) log show ?thesis
    by auto
qed

theorem loadModule_compiles_once_witness:
  "require_module built [] = (Inr (required :: script js_module), [ReadFile ''evaluator.wasm'']) \<and>
   (\<exists>p. loadModule_times (host (sandbox 8 [])) 3 required [ReadFile ''evaluator.wasm''] =
      (replicate 3 p, required\<lparr>modulePromise := Some p\<rparr>,
       [ReadFile ''evaluator.wasm'', Compile]))"
proof -
  have R: "require_module built [] =
             (Inr (required :: script js_module), [ReadFile ''evaluator.wasm''])"
    by (simp add: require_module_def built_def required_def)
  from loadModule_compiles_once [OF R, of 3 "host (sandbox 8 [])"] R
  show ?thesis by auto
qed

text \<open>Against claim C7 as stated: a process that uses both files, as \<^verbatim>\<open>index.js\<close>
  does, reads the artifact twice and compiles it twice, and the callers of the
  two \<^verbatim>\<open>loadModule\<close> functions hold two different promises.\<close>

theorem two_files_two_compilations:
  "load_in_both_files (host (sandbox 8 [])) built =
     Some (2, 3, [ReadFile ''evaluator.wasm'', ReadFile ''evaluator.wasm'', Compile, Compile])"
  by (simp add: load_in_both_files_def require_module_def built_def loadModule_def Let_def)

section \<open>A missing artifact\<close>

text \<open>
  Claim C9. Without the file \<^verbatim>\<open>evaluator.wasm\<close>, requiring either file throws
  an \<^verbatim>\<open>Error\<close> whose message tells the reader to build the artifact. A program
  that requires a file and then calls \<^verbatim>\<open>evaluate\<close> or \<^verbatim>\<open>Evaluator.create\<close> ends with
  that error, having done nothing but the one attempt to read the file: no
  compilation, no instantiation, no call of \<^verbatim>\<open>alloc\<close>, \<^verbatim>\<open>run\<close> or \<^verbatim>\<open>free\<close>.
\<close>

theorem missing_artifact:
  fixes P :: "'g platform"
  assumes "fs ''evaluator.wasm'' = None"
  shows "fst (require_module fs log :: (js_error + 'g js_module) \<times> event list) =
           Inl (Error ''Could not find evaluator.wasm; you probably need to build it first. See the README.md or the Makefile.'') \<and>
         require_then_evaluate P fs now e v pv log =
           (Inl (Error ''Could not find evaluator.wasm; you probably need to build it first. See the README.md or the Makefile.''),
            log @ [ReadFile ''evaluator.wasm'']) \<and>
         require_then_create P fs log =
           (Inl (Error ''Could not find evaluator.wasm; you probably need to build it first. See the README.md or the Makefile.''),
            log @ [ReadFile ''evaluator.wasm''])"
  using assms
  by (simp add: require_module_def require_then_evaluate_def require_then_create_def)

theorem missing_artifact_witness:
  "unbuilt ''evaluator.wasm'' = None \<and>
   require_then_evaluate (host (sandbox 8 [])) unbuilt noon (JStr ''.NOW.'') JUndefined JUndefined [] =
     (Inl (Error ''Could not find evaluator.wasm; you probably need to build it first. See the README.md or the Makefile.''),
      [ReadFile ''evaluator.wasm'']) \<and>
   require_then_create (host (sandbox 8 [])) unbuilt [] =
     (Inl (Error ''Could not find evaluator.wasm; you probably need to build it first. See the README.md or the Makefile.''),
      [ReadFile ''evaluator.wasm''])"
proof -
  have U: "unbuilt ''evaluator.wasm'' = None" by (simp add: unbuilt_def)
  from missing_artifact [where fs = unbuilt and log = "[]" and P = "host (sandbox 8 [])"
      and now = noon and e = "JStr ''.NOW.''" and v = JUndefined and pv = JUndefined, OF U] U
  show ?thesis by simp
qed

section \<open>The output slot of a handle\<close>

text \<open>
  Claim C4 at an input where the code breaks it. The sandbox replies with the
  text \<^verbatim>\<open>oops\<close>, which is not JSON: \<^verbatim>\<open>JSON.parse\<close> throws on the line before the
  one that resets the slot, and the handle keeps the text. On the path where
  the reply parses and carries an error, the slot is reset before the error is
  thrown.
\<close>

theorem slot_kept_after_parse_failure:
  \<open>result_of (Evaluator_evaluate (host (sandbox 8 [(Some ''oops'', False)])) noon
      (JStr ''.NOW.'') JUndefined JUndefined (fresh 8 [(Some ''oops'', False)]) []) =
     Inl SyntaxError \<and>
   this_outputStr (state_of (Evaluator_evaluate (host (sandbox 8 [(Some ''oops'', False)])) noon
      (JStr ''.NOW.'') JUndefined JUndefined (fresh 8 [(Some ''oops'', False)]) [])) =
     JStr ''oops'' \<and>
   result_of (Evaluator_evaluate (host (sandbox 8 [(Some ''{"error":"bad token"}'', False)])) noon
      (JStr ''.NOW.'') JUndefined JUndefined
      (fresh 8 [(Some ''{"error":"bad token"}'', False)]) []) = Inl (Error ''bad token'') \<and>
   this_outputStr (state_of (Evaluator_evaluate
      (host (sandbox 8 [(Some ''{"error":"bad token"}'', False)])) noon
      (JStr ''.NOW.'') JUndefined JUndefined
      (fresh 8 [(Some ''{"error":"bad token"}'', False)]) [])) = JNull\<close>
  by code_simp

end
